theory Spec2Isabelle
  imports Main
begin

section \<open>Messages, tools and the external capabilities\<close>

text \<open>
  The agent of \<^verbatim>\<open>src/mcp_agent/agent.py\<close> and the session of
  \<^verbatim>\<open>interactive_chat.py\<close> are embedded as functions over explicit state.
  Messages are the three message classes the code handles; only an assistant message
  has the attribute \<^verbatim>\<open>tool_calls\<close>.
\<close>

datatype tool_call =
  ToolCall (call_id: string) (call_name: string) (call_args: "(string \<times> string) list")

datatype message =
    HumanMessage string
  | AIMessage string "tool_call list"
  | ToolMessage string string

fun content :: "message \<Rightarrow> string" where
  "content (HumanMessage c) = c"
| "content (AIMessage c tcs) = c"
| "content (ToolMessage c cid) = c"

text \<open>\<^verbatim>\<open>hasattr(m, 'tool_calls') and m.tool_calls\<close>: the attribute exists and the list
  is not empty.\<close>

fun has_tool_calls :: "message \<Rightarrow> bool" where
  "has_tool_calls (AIMessage c tcs) = (tcs \<noteq> [])"
| "has_tool_calls (HumanMessage c) = False"
| "has_tool_calls (ToolMessage c cid) = False"

datatype tool = Tool (tool_name: string)

text \<open>A model handle is the original model or the result of \<^verbatim>\<open>bind_tools\<close> on a
  handle; the number of binds that produced a handle can be read off it.\<close>

datatype model = BaseModel | BoundModel model "tool list"

definition bind_tools :: "model \<Rightarrow> tool list \<Rightarrow> model" where
  "bind_tools m ts = BoundModel m ts"

fun bind_count :: "model \<Rightarrow> nat" where
  "bind_count BaseModel = 0"
| "bind_count (BoundModel m ts) = Suc (bind_count m)"

text \<open>Exceptions are values; \<open>str\<close> is Python's \<^verbatim>\<open>str(e)\<close>.\<close>

datatype error =
    RegistryUnavailable string
  | ModelInvocationError string
  | ToolInvocationError string

fun str :: "error \<Rightarrow> string" where
  "str (RegistryUnavailable s) = s"
| "str (ModelInvocationError s) = s"
| "str (ToolInvocationError s) = s"

record agent_state =
  messages :: "message list"
  tools :: "tool list option"

text \<open>
  The collaborators the code calls but does not implement: the tool registry
  (\<^verbatim>\<open>MultiServerMCPClient.get_tools\<close>), the chat model (\<^verbatim>\<open>ainvoke\<close> on a handle)
  and the tool dispatcher (\<^verbatim>\<open>ToolNode(tools).ainvoke(state)\<close>). Each returns a value or
  raises.
\<close>

record env =
  mcp_get_tools :: "error + tool list"
  model_ainvoke :: "model \<Rightarrow> message list \<Rightarrow> error + message"
  tool_node_ainvoke :: "tool list \<Rightarrow> agent_state \<Rightarrow> error + message list"

text \<open>Every call made to a collaborator is recorded, in order.\<close>

datatype event =
    FetchTools
  | BindTools model "tool list"
  | InvokeModel model "message list"
  | InvokeTools "tool list" "message list"

type_synonym trace = "event list"

fun is_bind :: "event \<Rightarrow> bool" where
  "is_bind (BindTools m ts) = True"
| "is_bind FetchTools = False"
| "is_bind (InvokeModel m ms) = False"
| "is_bind (InvokeTools ts ms) = False"

fun is_tool_invocation :: "event \<Rightarrow> bool" where
  "is_tool_invocation (InvokeTools ts ms) = True"
| "is_tool_invocation FetchTools = False"
| "is_tool_invocation (BindTools m ts) = False"
| "is_tool_invocation (InvokeModel m ms) = False"


section \<open>State reducers (schema.py)\<close>

text \<open>A node returns a dictionary with one key; the engine merges it into the state
  with the reducer annotated on that key in \<^verbatim>\<open>AgentState\<close>.\<close>

datatype update = MessagesUpdate "message list" | ToolsUpdate "tool list option"

text \<open>Modelled from the spec: \<^verbatim>\<open>add_messages\<close> is imported by schema.py from the graph
  library and its body is not part of the sources; section 4.2 gives
  \<^verbatim>\<open>reduceMessages(existing, incoming) = existing ++ incoming\<close>.\<close>

definition add_messages :: "message list \<Rightarrow> message list \<Rightarrow> message list" where
  "add_messages existing incoming = existing @ incoming"

text \<open>Modelled from the spec: \<^verbatim>\<open>StateReducers.replace_tools\<close> is imported by schema.py from
  the module \<^verbatim>\<open>state_reducers\<close> of the package, which is not among the sources; section 4.2
  gives \<^verbatim>\<open>reduceTools(existing, incoming) = incoming if incoming is non-null, else existing\<close>.
  Python's \<^verbatim>\<open>None\<close> is \<open>None\<close>.\<close>

definition replace_tools :: "tool list option \<Rightarrow> tool list option \<Rightarrow> tool list option" where
  "replace_tools existing incoming = (if incoming \<noteq> None then incoming else existing)"

fun apply_update :: "agent_state \<Rightarrow> update \<Rightarrow> agent_state" where
  "apply_update s (MessagesUpdate ms) = s\<lparr>messages := add_messages (messages s) ms\<rparr>"
| "apply_update s (ToolsUpdate ts) = s\<lparr>tools := replace_tools (tools s) ts\<rparr>"


section \<open>The agent (agent.py)\<close>

text \<open>The fields of \<^verbatim>\<open>Agent\<close>: \<open>agent_graph\<close> is whether \<^verbatim>\<open>self.agent\<close> holds the compiled
  graph; \<open>tool_node\<close> is \<open>None\<close> or the dispatcher built over a tool list.\<close>

record agent =
  model :: model
  agent_graph :: bool
  bound_tools :: "tool list option"
  tool_node :: "tool list option"

definition new_agent :: "model \<Rightarrow> agent" where
  "new_agent m = \<lparr>model = m, agent_graph = False, bound_tools = None, tool_node = None\<rparr>"

type_synonym 'a node_result = "(agent \<times> trace) \<times> (error + 'a)"

definition get_tools :: "env \<Rightarrow> agent \<Rightarrow> trace \<Rightarrow> agent_state \<Rightarrow> update node_result" where
  "get_tools e a tr s =
     (case mcp_get_tools e of
        Inl err \<Rightarrow> ((a, tr @ [FetchTools]), Inl err)
      | Inr ts \<Rightarrow> ((a, tr @ [FetchTools]), Inr (ToolsUpdate (Some ts))))"

text \<open>The binding part of \<^verbatim>\<open>_call_model\<close> (its lines before the model is invoked), kept
  apart so that it can be named. \<^verbatim>\<open>if tools:\<close> is false for \<^verbatim>\<open>None\<close> and for the empty
  list; \<^verbatim>\<open>self._bound_tools != tools\<close> compares the lists.\<close>

definition rebind :: "agent \<Rightarrow> trace \<Rightarrow> agent_state \<Rightarrow> agent \<times> trace" where
  "rebind a tr s =
     (case tools s of
        None \<Rightarrow> (a, tr)
      | Some ts \<Rightarrow>
          if ts \<noteq> [] then
            (if bound_tools a \<noteq> Some ts then
               (a\<lparr>model := bind_tools (model a) ts, bound_tools := Some ts, tool_node := Some ts\<rparr>,
                tr @ [BindTools (model a) ts])
             else (a, tr))
          else (a, tr))"

definition call_model :: "env \<Rightarrow> agent \<Rightarrow> trace \<Rightarrow> agent_state \<Rightarrow> update node_result" where
  "call_model e a tr s =
     (let (a', tr') = rebind a tr s in
        ((a', tr' @ [InvokeModel (model a') (messages s)]),
         (case model_ainvoke e (model a') (messages s) of
            Inl err \<Rightarrow> Inl err
          | Inr response \<Rightarrow> Inr (MessagesUpdate [response]))))"

definition execute_tools :: "env \<Rightarrow> agent \<Rightarrow> trace \<Rightarrow> agent_state \<Rightarrow> update node_result" where
  "execute_tools e a tr s =
     (case tool_node a of
        None \<Rightarrow> ((a, tr), Inr (MessagesUpdate []))
      | Some tn \<Rightarrow>
          (let last_message = (if messages s \<noteq> [] then Some (last (messages s)) else None) in
             (case last_message of
                None \<Rightarrow> ((a, tr), Inr (MessagesUpdate []))
              | Some m \<Rightarrow>
                  if has_tool_calls m then
                    ((a, tr @ [InvokeTools tn (messages s)]),
                     (case tool_node_ainvoke e tn s of
                        Inl err \<Rightarrow> Inl err
                      | Inr tool_results \<Rightarrow> Inr (MessagesUpdate tool_results)))
                  else ((a, tr), Inr (MessagesUpdate [])))))"

datatype node = N_get_tools | N_call_model | N_execute_tools | END

definition should_continue :: "agent_state \<Rightarrow> node" where
  "should_continue s =
     (if messages s = [] then END
      else if has_tool_calls (last (messages s)) then N_execute_tools
      else END)"

text \<open>The graph as \<^verbatim>\<open>build_agent\<close> wires it: the entry point, the unconditional edges and
  the conditional edges (source, path function, path map).\<close>

record state_graph =
  entry_point :: node
  edges :: "(node \<times> node) list"
  conditional_edges :: "(node \<times> (agent_state \<Rightarrow> node) \<times> (node \<times> node) list) list"

definition build_agent :: state_graph where
  "build_agent =
     \<lparr>entry_point = N_get_tools,
      edges = [(N_get_tools, N_call_model), (N_execute_tools, N_call_model), (N_call_model, END)],
      conditional_edges =
        [(N_call_model, should_continue, [(N_execute_tools, N_execute_tools), (END, END)])]\<rparr>"

text \<open>The engine: after a node has run and its update is merged, the targets of the node's
  edges are collected; \<open>END\<close> schedules nothing, and the run is over when no node is
  scheduled.\<close>

definition successors :: "state_graph \<Rightarrow> node \<Rightarrow> agent_state \<Rightarrow> node list" where
  "successors g n s =
     map snd (filter (\<lambda>ed. fst ed = n) (edges g)) @
     concat (map (\<lambda>(src, path, path_map).
                    if src = n then (case map_of path_map (path s) of Some t \<Rightarrow> [t] | None \<Rightarrow> [])
                    else [])
                 (conditional_edges g))"

definition next_node :: "state_graph \<Rightarrow> node \<Rightarrow> agent_state \<Rightarrow> node" where
  "next_node g n s =
     (case filter (\<lambda>t. t \<noteq> END) (successors g n s) of [] \<Rightarrow> END | t # ts \<Rightarrow> t)"

fun run_node :: "env \<Rightarrow> node \<Rightarrow> agent \<Rightarrow> trace \<Rightarrow> agent_state \<Rightarrow> update node_result" where
  "run_node e N_get_tools a tr s = get_tools e a tr s"
| "run_node e N_call_model a tr s = call_model e a tr s"
| "run_node e N_execute_tools a tr s = execute_tools e a tr s"
| "run_node e END a tr s = ((a, tr), Inr (MessagesUpdate []))"

text \<open>The loop between \<^verbatim>\<open>call_model\<close> and \<^verbatim>\<open>execute_tools\<close> has no bound in agent.py, so
  the run takes fuel, one unit per node, and \<open>None\<close> is a run that has not returned.
  An exception raised by a node ends the run with that exception.\<close>

fun run_graph ::
  "nat \<Rightarrow> env \<Rightarrow> state_graph \<Rightarrow> node \<Rightarrow> agent \<Rightarrow> trace \<Rightarrow> agent_state
     \<Rightarrow> agent_state node_result option" where
  "run_graph 0 e g n a tr s = None"
| "run_graph (Suc k) e g n a tr s =
     (if n = END then Some ((a, tr), Inr s)
      else
        (case run_node e n a tr s of
           ((a', tr'), Inl err) \<Rightarrow> Some ((a', tr'), Inl err)
         | ((a', tr'), Inr u) \<Rightarrow>
             (let s' = apply_update s u in run_graph k e g (next_node g n s') a' tr' s')))"

definition graph_ainvoke ::
  "nat \<Rightarrow> env \<Rightarrow> state_graph \<Rightarrow> agent \<Rightarrow> trace \<Rightarrow> message list
     \<Rightarrow> agent_state node_result option" where
  "graph_ainvoke k e g a tr input =
     run_graph k e g (entry_point g) a tr
       (apply_update \<lparr>messages = [], tools = None\<rparr> (MessagesUpdate input))"

text \<open>\<^verbatim>\<open>Agent.run\<close>: the graph is seeded with the one message built from \<open>question\<close>.\<close>

definition run ::
  "nat \<Rightarrow> env \<Rightarrow> agent \<Rightarrow> trace \<Rightarrow> string \<Rightarrow> agent_state node_result option" where
  "run k e a tr question =
     (let a' = (if \<not> agent_graph a then a\<lparr>agent_graph := True\<rparr> else a) in
        graph_ainvoke k e build_agent a' tr [HumanMessage question])"


section \<open>The session (interactive_chat.py)\<close>

record interactive_chat =
  agent :: agent
  chat_history :: "message list"
  max_history :: int
  agent_built :: bool

definition new_chat :: "agent \<Rightarrow> int \<Rightarrow> interactive_chat" where
  "new_chat a mh = \<lparr>agent = a, chat_history = [], max_history = mh, agent_built = False\<rparr>"

text \<open>Python's \<^verbatim>\<open>xs[i:]\<close>: a negative start counts from the end and is clipped at 0.\<close>

definition slice_from :: "int \<Rightarrow> 'a list \<Rightarrow> 'a list" where
  "slice_from i xs =
     (if i < 0 then drop (nat (int (length xs) + i)) xs else drop (nat i) xs)"

definition trim_history :: "interactive_chat \<Rightarrow> interactive_chat" where
  "trim_history c =
     (if int (length (chat_history c)) > max_history c
      then c\<lparr>chat_history := slice_from (- max_history c) (chat_history c)\<rparr>
      else c)"

definition ensure_agent_built :: "interactive_chat \<Rightarrow> interactive_chat" where
  "ensure_agent_built c = (if \<not> agent_built c then c\<lparr>agent_built := True\<rparr> else c)"

definition apology :: string where
  "apology = ''I apologize, but I couldn't generate a proper response.''"

text \<open>\<^verbatim>\<open>send_message\<close>. The copy \<^verbatim>\<open>messages_for_agent\<close> of the history is made and not
  used: the agent is run on \<open>message\<close>.\<close>

definition send_message ::
  "nat \<Rightarrow> env \<Rightarrow> interactive_chat \<Rightarrow> trace \<Rightarrow> string
     \<Rightarrow> ((interactive_chat \<times> trace) \<times> string) option" where
  "send_message k e c tr message =
     (let c1 = ensure_agent_built c;
          c2 = c1\<lparr>chat_history := chat_history c1 @ [HumanMessage message]\<rparr>;
          messages_for_agent = chat_history c2
      in
        (case run k e (agent c2) tr message of
           None \<Rightarrow> None
         | Some ((a', tr'), Inl err) \<Rightarrow>
             (let error_msg = ''Error occurred: '' @ str err in
                Some ((c2\<lparr>agent := a',
                          chat_history := chat_history c2 @ [AIMessage error_msg []]\<rparr>, tr'),
                      error_msg))
         | Some ((a', tr'), Inr response) \<Rightarrow>
             (case find (\<lambda>msg. content msg \<noteq> []) (rev (messages response)) of
                Some ai_response \<Rightarrow>
                  Some ((trim_history
                           (c2\<lparr>agent := a',
                               chat_history := chat_history c2 @ [ai_response]\<rparr>), tr'),
                        content ai_response)
              | None \<Rightarrow> Some ((c2\<lparr>agent := a'\<rparr>, tr'), apology))))"

section \<open>Sequences of calls and stub collaborators\<close>

text \<open>A sequence of \<^verbatim>\<open>send_message\<close> calls on one session, as the interactive loop
  makes them.\<close>

fun send_sequence ::
  "nat \<Rightarrow> env \<Rightarrow> interactive_chat \<Rightarrow> trace \<Rightarrow> string list
     \<Rightarrow> (interactive_chat \<times> trace) option" where
  "send_sequence k e c tr [] = Some (c, tr)"
| "send_sequence k e c tr (m # ms) =
     (case send_message k e c tr m of
        None \<Rightarrow> None
      | Some ((c', tr'), reply) \<Rightarrow> send_sequence k e c' tr' ms)"

text \<open>Stub collaborators for the concrete runs below. \<open>echo_env\<close>: no tools, and a model
  that answers with the text of every message it was given. \<open>down_env\<close>: the registry
  raises. \<open>flaky_env\<close>: the model raises on the question \<^verbatim>\<open>b\<close>. \<open>docs_env\<close>: one tool,
  requested by the model on its first invocation.\<close>

definition echo_env :: env where
  "echo_env =
     \<lparr>mcp_get_tools = Inr [],
      model_ainvoke = (\<lambda>m ms. Inr (AIMessage (concat (map content ms)) [])),
      tool_node_ainvoke = (\<lambda>ts s. Inr [])\<rparr>"

definition down_env :: env where
  "down_env = echo_env\<lparr>mcp_get_tools := Inl (RegistryUnavailable ''no server responds'')\<rparr>"

definition flaky_env :: env where
  "flaky_env =
     echo_env\<lparr>model_ainvoke :=
       (\<lambda>m ms. if ms = [HumanMessage ''b''] then Inl (ModelInvocationError ''boom'')
                else Inr (AIMessage ''ok'' []))\<rparr>"

definition docs_env :: env where
  "docs_env =
     \<lparr>mcp_get_tools = Inr [Tool ''search_docs''],
      model_ainvoke =
        (\<lambda>m ms. if length ms = 1
                 then Inr (AIMessage [] [ToolCall ''c1'' ''search_docs'' [(''q'', ''X'')]])
                 else Inr (AIMessage ''Here: found'' [])),
      tool_node_ainvoke = (\<lambda>ts s. Inr [ToolMessage ''found'' ''c1''])\<rparr>"

section \<open>Supporting lemmas\<close>

lemma rebind_same_tools:
  "bound_tools a = tools s \<Longrightarrow> rebind a tr s = (a, tr)"
  by (simp add: rebind_def split: option.splits)

lemma rebind_unbound:
  "bound_tools a = None \<Longrightarrow>
   rebind a tr s =
     (case tools s of
        None \<Rightarrow> (a, tr)
      | Some ts \<Rightarrow>
          if ts = [] then (a, tr)
          else (a\<lparr>model := bind_tools (model a) ts, bound_tools := Some ts, tool_node := Some ts\<rparr>,
                tr @ [BindTools (model a) ts]))"
  by (simp add: rebind_def split: option.splits)

lemma next_node_call_model:
  "next_node build_agent N_call_model s = should_continue s"
  by (simp add: next_node_def successors_def build_agent_def should_continue_def)

lemma next_node_get_tools:
  "next_node build_agent N_get_tools s = N_call_model"
  by (simp add: next_node_def successors_def build_agent_def)

lemma next_node_execute_tools:
  "next_node build_agent N_execute_tools s = N_call_model"
  by (simp add: next_node_def successors_def build_agent_def)

lemma apply_no_messages:
  "apply_update s (MessagesUpdate []) = s"
  by (simp add: add_messages_def)

lemma run_registry_error:
  "mcp_get_tools e = Inl err \<Longrightarrow>
   run (Suc k) e a tr q =
     Some (((if \<not> agent_graph a then a\<lparr>agent_graph := True\<rparr> else a), tr @ [FetchTools]), Inl err)"
  by (simp add: run_def graph_ainvoke_def build_agent_def get_tools_def Let_def)

lemma agent_of_prepared_chat:
  "agent (ensure_agent_built c) = agent c"
  by (simp add: ensure_agent_built_def)

lemma history_of_prepared_chat:
  "chat_history (ensure_agent_built c) = chat_history c"
  by (simp add: ensure_agent_built_def)

lemma send_message_on_error:
  "run k e (agent c) tr m = Some ((a', tr'), Inl err) \<Longrightarrow>
   send_message k e c tr m =
     Some (((ensure_agent_built c)
              \<lparr>agent := a',
                chat_history := chat_history c
                                @ [HumanMessage m, AIMessage (''Error occurred: '' @ str err) []]\<rparr>,
            tr'),
           ''Error occurred: '' @ str err)"
  by (simp add: send_message_def Let_def agent_of_prepared_chat history_of_prepared_chat)

lemma send_message_returns:
  "(send_message k e c tr m = None) = (run k e (agent c) tr m = None)"
  by (simp add: send_message_def Let_def agent_of_prepared_chat
           split: option.splits sum.splits prod.splits)

text \<open>With a positive \<open>max_history\<close> the trimming step keeps the last \<open>max_history\<close>
  entries, in their order.\<close>

lemma trim_history_positive:
  "0 < max_history c \<Longrightarrow>
   chat_history (trim_history c) =
     drop (length (chat_history c) - nat (max_history c)) (chat_history c)
   \<and> int (length (chat_history (trim_history c))) \<le> max_history c"
  by (auto simp add: trim_history_def slice_from_def nat_diff_distrib nat_add_distrib)

text \<open>Whatever \<open>max_history\<close> is, the trimming step drops entries from the front only.\<close>

lemma trim_history_suffix:
  "\<exists>n. chat_history (trim_history c) = drop n (chat_history c)"
proof (cases "int (length (chat_history c)) > max_history c")
  case True
  then show ?thesis
    by (auto simp add: trim_history_def slice_from_def)
next
  case False
  then have "chat_history (trim_history c) = drop 0 (chat_history c)"
    by (simp add: trim_history_def)
  then show ?thesis by blast
qed


lemma rebind_twice:
  "tools s2 = tools s1 \<Longrightarrow>
   rebind (fst (rebind a tr s1)) tr' s2 = (fst (rebind a tr s1), tr')"
  by (auto simp add: rebind_def split: option.splits)

text \<open>Enough fuel: when the model never asks for a tool, three units are enough for the
  run to return (with a state or with the exception a node raised).\<close>

lemma run_returns_without_tool_calls:
  assumes "\<And>m ms r. model_ainvoke e m ms = Inr r \<Longrightarrow> \<not> has_tool_calls r"
  shows "run (Suc (Suc (Suc k))) e a tr q \<noteq> None"
proof -
  let ?a = "if \<not> agent_graph a then a\<lparr>agent_graph := True\<rparr> else a"
  let ?s0 = "\<lparr>messages = [HumanMessage q], tools = None\<rparr>"
  show ?thesis
  proof (cases "mcp_get_tools e")
    case (Inl err)
    then show ?thesis using run_registry_error [of e err] by simp
  next
    case (Inr ts)
    let ?s1 = "apply_update ?s0 (ToolsUpdate (Some ts))"
    obtain a1 tr1 where rb: "rebind ?a (tr @ [FetchTools]) ?s1 = (a1, tr1)"
      by (cases "rebind ?a (tr @ [FetchTools]) ?s1") simp
    show ?thesis
    proof (cases "model_ainvoke e (model a1) (messages ?s1)")
      case (Inl err)
      with Inr rb show ?thesis
        by (simp add: run_def graph_ainvoke_def get_tools_def call_model_def Let_def
              next_node_get_tools add_messages_def
              build_agent_def [THEN arg_cong, of entry_point])
    next
      case (Inr r)
      with assms have "\<not> has_tool_calls r" by blast
      with Inr \<open>mcp_get_tools e = Inr ts\<close> rb show ?thesis
        by (simp add: run_def graph_ainvoke_def get_tools_def call_model_def Let_def
              next_node_get_tools next_node_call_model should_continue_def add_messages_def
              build_agent_def [THEN arg_cong, of entry_point])
    qed
  qed
qed


section \<open>The claims\<close>

text \<open>C1. The claim: every call of send invokes the execution graph with the whole retained
  history plus the new user message. The code copies the history into
  \<^verbatim>\<open>messages_for_agent\<close> and then runs the agent on the new text alone. Two sends on a
  fresh session whose model answers with everything it was shown: on the second send the
  model is shown the question \<^verbatim>\<open>b\<close> only and answers \<^verbatim>\<open>b\<close>, although the history holds
  the first exchange.\<close>

theorem second_send_seeds_graph_without_history:
  "send_sequence 5 echo_env (new_chat (new_agent BaseModel) 50) [] [''a'', ''b''] =
     Some (\<lparr>agent = \<lparr>model = BaseModel, agent_graph = True, bound_tools = None,
                      tool_node = None\<rparr>,
             chat_history = [HumanMessage ''a'', AIMessage ''a'' [],
                             HumanMessage ''b'', AIMessage ''b'' []],
             max_history = 50, agent_built = True\<rparr>,
           [FetchTools, InvokeModel BaseModel [HumanMessage ''a''],
            FetchTools, InvokeModel BaseModel [HumanMessage ''b'']])"
  by code_simp

text \<open>C2. The claim: when the registry raises, the graph still goes on to the model call
  and the turn ends with a reply made without tools. On the code the exception of
  \<^verbatim>\<open>get_tools\<close> ends the run: the only call made is the fetch, and the outcome is the
  exception.\<close>

theorem registry_down_counterexample:
  "run 5 down_env (new_agent BaseModel) [] ''hi'' =
     Some ((\<lparr>model = BaseModel, agent_graph = True, bound_tools = None, tool_node = None\<rparr>,
            [FetchTools]),
           Inl (RegistryUnavailable ''no server responds''))"
  by code_simp

text \<open>C2, amended. When the registry raises, the run of the graph ends at the fetch with
  that exception: the model is neither bound nor invoked. The session turns the exception
  into the reply \<^verbatim>\<open>Error occurred: ...\<close> and records it after the user message.\<close>

theorem registry_failure_ends_run:
  assumes "mcp_get_tools e = Inl err"
  shows "(\<exists>a'. run (Suc k) e a tr q = Some ((a', tr @ [FetchTools]), Inl err)
               \<and> model a' = model a \<and> bound_tools a' = bound_tools a
               \<and> tool_node a' = tool_node a)
       \<and> (\<exists>c'. send_message (Suc k) e c tr m
                   = Some ((c', tr @ [FetchTools]), ''Error occurred: '' @ str err)
               \<and> chat_history c'
                   = chat_history c
                     @ [HumanMessage m, AIMessage (''Error occurred: '' @ str err) []])"
proof -
  have r: "\<And>a. run (Suc k) e a tr q =
             Some (((if \<not> agent_graph a then a\<lparr>agent_graph := True\<rparr> else a),
                    tr @ [FetchTools]), Inl err)"
    using assms by (rule run_registry_error)
  have first: "\<exists>a'. run (Suc k) e a tr q = Some ((a', tr @ [FetchTools]), Inl err)
               \<and> model a' = model a \<and> bound_tools a' = bound_tools a
               \<and> tool_node a' = tool_node a"
    using r [of a] by simp
  have "run (Suc k) e (agent c) tr m =
          Some (((if \<not> agent_graph (agent c) then (agent c)\<lparr>agent_graph := True\<rparr>
                  else agent c), tr @ [FetchTools]), Inl err)"
    using assms by (rule run_registry_error)
  from send_message_on_error [OF this]
  have second: "\<exists>c'. send_message (Suc k) e c tr m
                   = Some ((c', tr @ [FetchTools]), ''Error occurred: '' @ str err)
               \<and> chat_history c'
                   = chat_history c
                     @ [HumanMessage m, AIMessage (''Error occurred: '' @ str err) []]"
    by simp
  from first second show ?thesis by blast
qed

theorem registry_failure_ends_run_witness:
  "mcp_get_tools down_env = Inl (RegistryUnavailable ''no server responds'')
   \<and> (\<exists>a'. run (Suc 0) down_env (new_agent BaseModel) [] ''hi''
              = Some ((a', [FetchTools]), Inl (RegistryUnavailable ''no server responds''))
            \<and> model a' = BaseModel \<and> bound_tools a' = None \<and> tool_node a' = None)
   \<and> (\<exists>c'. send_message (Suc 0) down_env (new_chat (new_agent BaseModel) 50) [] ''hi''
              = Some ((c', [FetchTools]), ''Error occurred: no server responds'')
            \<and> chat_history c'
                = [HumanMessage ''hi'', AIMessage ''Error occurred: no server responds'' []])"
proof -
  have h: "mcp_get_tools down_env = Inl (RegistryUnavailable ''no server responds'')"
    by (simp add: down_env_def echo_env_def)
  show ?thesis
    using h registry_failure_ends_run [OF h, of 0 "new_agent BaseModel" "[]" "''hi''"
                                        "new_chat (new_agent BaseModel) 50" "''hi''"]
    by (simp add: new_agent_def new_chat_def)
qed

text \<open>C3. The claim: on the first pass the binding step always binds, also with an empty
  tool set, so after one pass the model in use is never the unbound original. On the code
  \<^verbatim>\<open>if tools:\<close> skips the binding for an empty list: a whole run with an empty registry
  binds nothing, invokes the original model and leaves it in the agent.\<close>

theorem empty_tool_set_first_pass_counterexample:
  "run 5 echo_env (new_agent BaseModel) [] ''hi'' =
     Some ((\<lparr>model = BaseModel, agent_graph = True, bound_tools = None, tool_node = None\<rparr>,
            [FetchTools, InvokeModel BaseModel [HumanMessage ''hi'']]),
           Inr \<lparr>messages = [HumanMessage ''hi'', AIMessage ''hi'' []], tools = Some []\<rparr>)"
  by code_simp

text \<open>C3, amended. With no prior binding, the binding step binds exactly when the tool
  set of the state is not empty: then the model is bound to that set, the set is recorded
  as bound, the dispatcher is built over it, and the bound handle is the one invoked.
  With an empty or absent tool set nothing is bound and the handle invoked is the one the
  agent had.\<close>

theorem call_model_first_pass:
  assumes "bound_tools a = None"
  shows "fst (call_model e a tr s) =
           (case tools s of
              None \<Rightarrow> (a, tr @ [InvokeModel (model a) (messages s)])
            | Some ts \<Rightarrow>
                if ts = [] then (a, tr @ [InvokeModel (model a) (messages s)])
                else (a\<lparr>model := bind_tools (model a) ts, bound_tools := Some ts,
                         tool_node := Some ts\<rparr>,
                      tr @ [BindTools (model a) ts,
                            InvokeModel (bind_tools (model a) ts) (messages s)]))"
  using assms by (simp add: call_model_def rebind_unbound split: option.splits)

theorem call_model_first_pass_witness:
  "bound_tools (new_agent BaseModel) = None
   \<and> fst (call_model docs_env (new_agent BaseModel) []
            \<lparr>messages = [HumanMessage ''hi''], tools = Some [Tool ''search_docs'']\<rparr>) =
       (\<lparr>model = BoundModel BaseModel [Tool ''search_docs''], agent_graph = False,
          bound_tools = Some [Tool ''search_docs''],
          tool_node = Some [Tool ''search_docs'']\<rparr>,
        [BindTools BaseModel [Tool ''search_docs''],
         InvokeModel (BoundModel BaseModel [Tool ''search_docs'']) [HumanMessage ''hi'']])"
proof -
  have h: "bound_tools (new_agent BaseModel) = None" by (simp add: new_agent_def)
  show ?thesis
    using h call_model_first_pass [OF h, of docs_env "[]"
            "\<lparr>messages = [HumanMessage ''hi''], tools = Some [Tool ''search_docs'']\<rparr>"]
    by (simp add: new_agent_def bind_tools_def)
qed

text \<open>C4. The claim: after every send the retained history is at most \<open>max_history\<close> long.
  The trimming step is reached only on the path that found a reply. With
  \<open>max_history = 2\<close>, a first send that succeeds and a second send whose model call raises
  leave four entries. And with \<open>max_history = 0\<close> the slice \<^verbatim>\<open>[-0:]\<close> of the trimming step is
  the whole list: one successful send leaves two entries.\<close>

theorem history_exceeds_max_history:
  "send_sequence 5 flaky_env (new_chat (new_agent BaseModel) 2) [] [''a'', ''b''] =
     Some (\<lparr>agent = \<lparr>model = BaseModel, agent_graph = True, bound_tools = None,
                      tool_node = None\<rparr>,
             chat_history = [HumanMessage ''a'', AIMessage ''ok'' [],
                             HumanMessage ''b'', AIMessage ''Error occurred: boom'' []],
             max_history = 2, agent_built = True\<rparr>,
           [FetchTools, InvokeModel BaseModel [HumanMessage ''a''],
            FetchTools, InvokeModel BaseModel [HumanMessage ''b'']])
   \<and> send_sequence 5 flaky_env (new_chat (new_agent BaseModel) 0) [] [''a''] =
       Some (\<lparr>agent = \<lparr>model = BaseModel, agent_graph = True, bound_tools = None,
                        tool_node = None\<rparr>,
               chat_history = [HumanMessage ''a'', AIMessage ''ok'' []],
               max_history = 0, agent_built = True\<rparr>,
             [FetchTools, InvokeModel BaseModel [HumanMessage ''a'']])"
  by code_simp

text \<open>C6. The tools reducer keeps the existing value when the incoming value is \<^verbatim>\<open>None\<close>,
  and otherwise returns the incoming value as it is: nothing of the existing value
  remains in the result.\<close>

theorem replace_tools_replace_or_keep:
  "replace_tools A None = A \<and> (B \<noteq> None \<longrightarrow> replace_tools A B = B)"
  by (simp add: replace_tools_def)

theorem replace_tools_replace_or_keep_witness:
  "replace_tools (Some [Tool ''old'']) None = Some [Tool ''old'']
   \<and> Some [Tool ''new''] \<noteq> (None :: tool list option)
   \<and> replace_tools (Some [Tool ''old'']) (Some [Tool ''new'']) = Some [Tool ''new'']"
  using replace_tools_replace_or_keep [of "Some [Tool ''old'']" "Some [Tool ''new'']"]
  by simp

text \<open>C7. When \<^verbatim>\<open>call_model\<close> returns, its update is the one response of the model; once
  the update is merged, the response is the last message, and the node that follows
  \<^verbatim>\<open>call_model\<close> is \<^verbatim>\<open>execute_tools\<close> exactly when the response carries a tool call, and
  the end of the run otherwise. The run of the graph takes that step: from \<^verbatim>\<open>call_model\<close>
  it goes on, on the merged state, at \<^verbatim>\<open>execute_tools\<close> when the response carries a tool
  call (the next node run is \<^verbatim>\<open>execute_tools\<close>, after which the run is at \<^verbatim>\<open>call_model\<close>
  again), and otherwise it ends and returns the merged state. The other two nodes are
  followed by \<^verbatim>\<open>call_model\<close> in every state, and the graph has conditional edges at
  \<^verbatim>\<open>call_model\<close> only.\<close>

theorem call_model_branch:
  assumes "call_model e a tr s = (r, Inr u)"
  shows "\<exists>response.
           u = MessagesUpdate [response]
         \<and> messages (apply_update s u) = messages s @ [response]
         \<and> (next_node build_agent N_call_model (apply_update s u) = N_execute_tools)
             = has_tool_calls response
         \<and> (next_node build_agent N_call_model (apply_update s u) = END)
             = (\<not> has_tool_calls response)
         \<and> run_graph (Suc k) e build_agent N_call_model a tr s
             = run_graph k e build_agent
                 (if has_tool_calls response then N_execute_tools else END)
                 (fst r) (snd r) (apply_update s u)
         \<and> run_graph (Suc (Suc k)) e build_agent N_call_model a tr s
             = (if has_tool_calls response then
                  (case execute_tools e (fst r) (snd r) (apply_update s u) of
                     (r', Inl err) \<Rightarrow> Some (r', Inl err)
                   | (r', Inr u') \<Rightarrow>
                       run_graph k e build_agent N_call_model (fst r') (snd r')
                         (apply_update (apply_update s u) u'))
                else Some (r, Inr (apply_update s u)))
         \<and> next_node build_agent N_get_tools s' = N_call_model
         \<and> next_node build_agent N_execute_tools s' = N_call_model
         \<and> map fst (conditional_edges build_agent) = [N_call_model]"
proof -
  obtain a1 tr1 where rb: "rebind a tr s = (a1, tr1)"
    by (cases "rebind a tr s") simp
  from assms rb obtain response where
    u: "u = MessagesUpdate [response]"
    by (auto simp add: call_model_def split: sum.splits)
  have m: "messages (apply_update s u) = messages s @ [response]"
    using u by (simp add: add_messages_def)
  have n: "next_node build_agent N_call_model (apply_update s u)
             = (if has_tool_calls response then N_execute_tools else END)"
    using m by (simp add: next_node_call_model should_continue_def)
  have c: "map fst (conditional_edges build_agent) = [N_call_model]"
    by (simp add: build_agent_def)
  have step: "\<And>j. run_graph (Suc j) e build_agent N_call_model a tr s
             = run_graph j e build_agent
                 (if has_tool_calls response then N_execute_tools else END)
                 (fst r) (snd r) (apply_update s u)"
  proof -
    fix j
    obtain a' tr' where r: "r = (a', tr')" by (cases r) simp
    have "run_node e N_call_model a tr s = ((a', tr'), Inr u)"
      using assms r by simp
    then have "run_graph (Suc j) e build_agent N_call_model a tr s
                 = run_graph j e build_agent
                     (next_node build_agent N_call_model (apply_update s u))
                     a' tr' (apply_update s u)"
      by (simp add: Let_def del: run_node.simps apply_update.simps)
    then show "run_graph (Suc j) e build_agent N_call_model a tr s
             = run_graph j e build_agent
                 (if has_tool_calls response then N_execute_tools else END)
                 (fst r) (snd r) (apply_update s u)"
      using n r by simp
  qed
  have two: "run_graph (Suc (Suc k)) e build_agent N_call_model a tr s
             = (if has_tool_calls response then
                  (case execute_tools e (fst r) (snd r) (apply_update s u) of
                     (r', Inl err) \<Rightarrow> Some (r', Inl err)
                   | (r', Inr u') \<Rightarrow>
                       run_graph k e build_agent N_call_model (fst r') (snd r')
                         (apply_update (apply_update s u) u'))
                else Some (r, Inr (apply_update s u)))"
  proof (cases "has_tool_calls response")
    case True
    have "run_graph (Suc k) e build_agent N_execute_tools (fst r) (snd r) (apply_update s u)
            = (case execute_tools e (fst r) (snd r) (apply_update s u) of
                 (r', Inl err) \<Rightarrow> Some (r', Inl err)
               | (r', Inr u') \<Rightarrow>
                   run_graph k e build_agent N_call_model (fst r') (snd r')
                     (apply_update (apply_update s u) u'))"
      by (simp add: Let_def next_node_execute_tools split: prod.splits sum.splits
               del: apply_update.simps)
    with True step [of "Suc k"] show ?thesis by simp
  next
    case False
    have "run_graph (Suc k) e build_agent END (fst r) (snd r) (apply_update s u)
            = Some (r, Inr (apply_update s u))"
      by simp
    with False step [of "Suc k"] show ?thesis by simp
  qed
  have n1: "(next_node build_agent N_call_model (apply_update s u) = N_execute_tools)
              = has_tool_calls response"
    using n by simp
  have n2: "(next_node build_agent N_call_model (apply_update s u) = END)
              = (\<not> has_tool_calls response)"
    using n by simp
  show ?thesis
    apply (rule exI [of _ response])
    apply (intro conjI)
            apply (rule u)
           apply (rule m)
          apply (rule n1)
         apply (rule n2)
        apply (rule step)
       apply (rule two)
      apply (rule next_node_get_tools)
     apply (rule next_node_execute_tools)
    apply (rule c)
    done
qed

theorem call_model_branch_witness:
  "call_model docs_env (new_agent BaseModel) []
     \<lparr>messages = [HumanMessage ''docs for X''], tools = Some [Tool ''search_docs'']\<rparr>
     = ((\<lparr>model = BoundModel BaseModel [Tool ''search_docs''], agent_graph = False,
           bound_tools = Some [Tool ''search_docs''],
           tool_node = Some [Tool ''search_docs'']\<rparr>,
         [BindTools BaseModel [Tool ''search_docs''],
          InvokeModel (BoundModel BaseModel [Tool ''search_docs''])
            [HumanMessage ''docs for X'']]),
        Inr (MessagesUpdate [AIMessage [] [ToolCall ''c1'' ''search_docs'' [(''q'', ''X'')]]]))
   \<and> next_node build_agent N_call_model
       (apply_update
          \<lparr>messages = [HumanMessage ''docs for X''], tools = Some [Tool ''search_docs'']\<rparr>
          (MessagesUpdate [AIMessage [] [ToolCall ''c1'' ''search_docs'' [(''q'', ''X'')]]]))
       = N_execute_tools
   \<and> run_graph (Suc 3) docs_env build_agent N_call_model (new_agent BaseModel) []
       \<lparr>messages = [HumanMessage ''docs for X''], tools = Some [Tool ''search_docs'']\<rparr>
       = run_graph 3 docs_env build_agent N_execute_tools
           \<lparr>model = BoundModel BaseModel [Tool ''search_docs''], agent_graph = False,
             bound_tools = Some [Tool ''search_docs''],
             tool_node = Some [Tool ''search_docs'']\<rparr>
           [BindTools BaseModel [Tool ''search_docs''],
            InvokeModel (BoundModel BaseModel [Tool ''search_docs''])
              [HumanMessage ''docs for X'']]
           \<lparr>messages = [HumanMessage ''docs for X'',
                        AIMessage [] [ToolCall ''c1'' ''search_docs'' [(''q'', ''X'')]]],
             tools = Some [Tool ''search_docs'']\<rparr>
   \<and> run_graph (Suc 3) docs_env build_agent N_call_model (new_agent BaseModel) []
       \<lparr>messages = [HumanMessage ''docs for X''], tools = Some [Tool ''search_docs'']\<rparr>
       = Some ((\<lparr>model = BoundModel BaseModel [Tool ''search_docs''], agent_graph = False,
                 bound_tools = Some [Tool ''search_docs''],
                 tool_node = Some [Tool ''search_docs'']\<rparr>,
                [BindTools BaseModel [Tool ''search_docs''],
                 InvokeModel (BoundModel BaseModel [Tool ''search_docs''])
                   [HumanMessage ''docs for X''],
                 InvokeTools [Tool ''search_docs'']
                   [HumanMessage ''docs for X'',
                    AIMessage [] [ToolCall ''c1'' ''search_docs'' [(''q'', ''X'')]]],
                 InvokeModel (BoundModel BaseModel [Tool ''search_docs''])
                   [HumanMessage ''docs for X'',
                    AIMessage [] [ToolCall ''c1'' ''search_docs'' [(''q'', ''X'')]],
                    ToolMessage ''found'' ''c1'']]),
               Inr \<lparr>messages =
                      [HumanMessage ''docs for X'',
                       AIMessage [] [ToolCall ''c1'' ''search_docs'' [(''q'', ''X'')]],
                       ToolMessage ''found'' ''c1'', AIMessage ''Here: found'' []],
                    tools = Some [Tool ''search_docs'']\<rparr>)"
proof -
  let ?s = "\<lparr>messages = [HumanMessage ''docs for X''], tools = Some [Tool ''search_docs'']\<rparr>"
  let ?a = "\<lparr>model = BoundModel BaseModel [Tool ''search_docs''], agent_graph = False,
              bound_tools = Some [Tool ''search_docs''],
              tool_node = Some [Tool ''search_docs'']\<rparr>"
  let ?tr = "[BindTools BaseModel [Tool ''search_docs''],
             InvokeModel (BoundModel BaseModel [Tool ''search_docs''])
               [HumanMessage ''docs for X'']]"
  let ?u = "MessagesUpdate [AIMessage [] [ToolCall ''c1'' ''search_docs'' [(''q'', ''X'')]]]"
  have h: "call_model docs_env (new_agent BaseModel) [] ?s = ((?a, ?tr), Inr ?u)"
    by (simp add: call_model_def rebind_def docs_env_def new_agent_def bind_tools_def)
  from call_model_branch [OF h, of 3 ?s]
  have n: "next_node build_agent N_call_model (apply_update ?s ?u) = N_execute_tools"
    and st: "run_graph (Suc 3) docs_env build_agent N_call_model (new_agent BaseModel) [] ?s
              = run_graph 3 docs_env build_agent N_execute_tools ?a ?tr (apply_update ?s ?u)"
    by (auto simp add: add_messages_def)
  have ev: "run_graph (Suc 3) docs_env build_agent N_call_model (new_agent BaseModel) [] ?s
       = Some ((?a,
                [BindTools BaseModel [Tool ''search_docs''],
                 InvokeModel (BoundModel BaseModel [Tool ''search_docs''])
                   [HumanMessage ''docs for X''],
                 InvokeTools [Tool ''search_docs'']
                   [HumanMessage ''docs for X'',
                    AIMessage [] [ToolCall ''c1'' ''search_docs'' [(''q'', ''X'')]]],
                 InvokeModel (BoundModel BaseModel [Tool ''search_docs''])
                   [HumanMessage ''docs for X'',
                    AIMessage [] [ToolCall ''c1'' ''search_docs'' [(''q'', ''X'')]],
                    ToolMessage ''found'' ''c1'']]),
               Inr \<lparr>messages =
                      [HumanMessage ''docs for X'',
                       AIMessage [] [ToolCall ''c1'' ''search_docs'' [(''q'', ''X'')]],
                       ToolMessage ''found'' ''c1'', AIMessage ''Here: found'' []],
                    tools = Some [Tool ''search_docs'']\<rparr>)"
    by code_simp
  have ap: "apply_update ?s ?u
              = \<lparr>messages = [HumanMessage ''docs for X'',
                             AIMessage [] [ToolCall ''c1'' ''search_docs'' [(''q'', ''X'')]]],
                  tools = Some [Tool ''search_docs'']\<rparr>"
    by (simp add: add_messages_def)
  from h n st [unfolded ap] ev show ?thesis
    unfolding ap by blast
qed

text \<open>C8. When no dispatcher has been built, or the state has no message, or its last
  message carries no tool call, \<^verbatim>\<open>execute_tools\<close> returns an empty list of messages, the
  agent is as it was, no call to a collaborator is recorded, the merged state is the state
  it was given, and the run goes on at \<^verbatim>\<open>call_model\<close>.\<close>

theorem execute_tools_noop:
  assumes "tool_node a = None \<or> messages s = [] \<or> \<not> has_tool_calls (last (messages s))"
  shows "execute_tools e a tr s = ((a, tr), Inr (MessagesUpdate []))
       \<and> filter is_tool_invocation (snd (fst (execute_tools e a tr s)))
           = filter is_tool_invocation tr
       \<and> apply_update s (MessagesUpdate []) = s
       \<and> next_node build_agent N_execute_tools (apply_update s (MessagesUpdate []))
           = N_call_model
       \<and> run_graph (Suc k) e build_agent N_execute_tools a tr s
           = run_graph k e build_agent N_call_model a tr s"
proof -
  have x: "execute_tools e a tr s = ((a, tr), Inr (MessagesUpdate []))"
    using assms by (auto simp add: execute_tools_def split: option.splits)
  have y: "run_graph (Suc k) e build_agent N_execute_tools a tr s
             = run_graph k e build_agent N_call_model a tr s"
    using x by (simp add: apply_no_messages next_node_execute_tools del: apply_update.simps)
  show ?thesis
    using x y by (simp add: apply_no_messages next_node_execute_tools del: apply_update.simps)
qed

theorem execute_tools_noop_witness:
  "tool_node (new_agent BaseModel) = None
   \<and> execute_tools docs_env (new_agent BaseModel) []
        \<lparr>messages = [HumanMessage ''docs for X'',
                     AIMessage [] [ToolCall ''c1'' ''search_docs'' [(''q'', ''X'')]]],
         tools = None\<rparr>
       = ((new_agent BaseModel, []), Inr (MessagesUpdate []))"
proof -
  have h: "tool_node (new_agent BaseModel) = None" by (simp add: new_agent_def)
  then have "tool_node (new_agent BaseModel) = None
             \<or> messages \<lparr>messages = [HumanMessage ''docs for X'',
                     AIMessage [] [ToolCall ''c1'' ''search_docs'' [(''q'', ''X'')]]],
                   tools = None\<rparr> = []
             \<or> \<not> has_tool_calls (last (messages \<lparr>messages = [HumanMessage ''docs for X'',
                     AIMessage [] [ToolCall ''c1'' ''search_docs'' [(''q'', ''X'')]]],
                   tools = None\<rparr>))"
    by blast
  from execute_tools_noop [OF this, of docs_env "[]" 0] h show ?thesis by blast
qed

text \<open>C9. When the tool set of the state is the one recorded as bound, \<^verbatim>\<open>call_model\<close>
  leaves the agent as it was (model handle, bound tool set and dispatcher), records no
  bind, and invokes the handle the agent already had.\<close>

theorem call_model_same_tools:
  assumes "tools s = Some ts" and "bound_tools a = Some ts"
  shows "fst (call_model e a tr s) = (a, tr @ [InvokeModel (model a) (messages s)])
       \<and> filter is_bind (snd (fst (call_model e a tr s))) = filter is_bind tr
       \<and> bind_count (model (fst (fst (call_model e a tr s)))) = bind_count (model a)"
proof -
  have "rebind a tr s = (a, tr)"
    using assms by (simp add: rebind_same_tools)
  then have "fst (call_model e a tr s) = (a, tr @ [InvokeModel (model a) (messages s)])"
    by (simp add: call_model_def)
  then show ?thesis by simp
qed

theorem call_model_same_tools_witness:
  "tools \<lparr>messages = [HumanMessage ''hi''], tools = Some [Tool ''search_docs'']\<rparr>
     = Some [Tool ''search_docs'']
   \<and> bound_tools \<lparr>model = BoundModel BaseModel [Tool ''search_docs''], agent_graph = True,
                   bound_tools = Some [Tool ''search_docs''],
                   tool_node = Some [Tool ''search_docs'']\<rparr>
     = Some [Tool ''search_docs'']
   \<and> fst (call_model docs_env
            \<lparr>model = BoundModel BaseModel [Tool ''search_docs''], agent_graph = True,
              bound_tools = Some [Tool ''search_docs''],
              tool_node = Some [Tool ''search_docs'']\<rparr>
            [FetchTools]
            \<lparr>messages = [HumanMessage ''hi''], tools = Some [Tool ''search_docs'']\<rparr>)
     = (\<lparr>model = BoundModel BaseModel [Tool ''search_docs''], agent_graph = True,
          bound_tools = Some [Tool ''search_docs''],
          tool_node = Some [Tool ''search_docs'']\<rparr>,
        [FetchTools,
         InvokeModel (BoundModel BaseModel [Tool ''search_docs'']) [HumanMessage ''hi'']])"
proof -
  let ?s = "\<lparr>messages = [HumanMessage ''hi''], tools = Some [Tool ''search_docs'']\<rparr>"
  let ?a = "\<lparr>model = BoundModel BaseModel [Tool ''search_docs''], agent_graph = True,
             bound_tools = Some [Tool ''search_docs''],
             tool_node = Some [Tool ''search_docs'']\<rparr>"
  have h1: "tools ?s = Some [Tool ''search_docs'']" by simp
  have h2: "bound_tools ?a = Some [Tool ''search_docs'']" by simp
  from call_model_same_tools [OF h1 h2, of docs_env "[FetchTools]"] h1 h2
  show ?thesis by simp
qed

text \<open>C10. When the run of the agent inside \<^verbatim>\<open>send_message\<close> ends with an exception,
  \<^verbatim>\<open>send_message\<close> returns the text \<^verbatim>\<open>Error occurred: \<close> followed by the text of the
  exception, and the history is the old history, the user message and an assistant
  message with that text. \<^verbatim>\<open>send_message\<close> returns whenever the run of the agent returns
  or raises.\<close>

theorem send_message_error_in_band:
  "(run k e (agent c) tr m = Some ((a', tr'), Inl err) \<longrightarrow>
      (\<exists>c'. send_message k e c tr m = Some ((c', tr'), ''Error occurred: '' @ str err)
           \<and> chat_history c'
               = chat_history c
                 @ [HumanMessage m, AIMessage (''Error occurred: '' @ str err) []]))
   \<and> (send_message k e c tr m = None) = (run k e (agent c) tr m = None)"
proof -
  have "run k e (agent c) tr m = Some ((a', tr'), Inl err) \<Longrightarrow>
          \<exists>c'. send_message k e c tr m = Some ((c', tr'), ''Error occurred: '' @ str err)
             \<and> chat_history c'
                 = chat_history c
                   @ [HumanMessage m, AIMessage (''Error occurred: '' @ str err) []]"
    using send_message_on_error [of k e c tr m a' tr' err] by simp
  then show ?thesis using send_message_returns [of k e c tr m] by blast
qed

theorem send_message_error_in_band_witness:
  "run 5 flaky_env (agent (new_chat (new_agent BaseModel) 50)) [] ''b''
     = Some ((\<lparr>model = BaseModel, agent_graph = True, bound_tools = None, tool_node = None\<rparr>,
              [FetchTools, InvokeModel BaseModel [HumanMessage ''b'']]),
             Inl (ModelInvocationError ''boom''))
   \<and> (\<exists>c'. send_message 5 flaky_env (new_chat (new_agent BaseModel) 50) [] ''b''
              = Some ((c', [FetchTools, InvokeModel BaseModel [HumanMessage ''b'']]),
                      ''Error occurred: boom'')
          \<and> chat_history c' = [HumanMessage ''b'', AIMessage ''Error occurred: boom'' []])"
proof -
  have h: "run 5 flaky_env (agent (new_chat (new_agent BaseModel) 50)) [] ''b''
     = Some ((\<lparr>model = BaseModel, agent_graph = True, bound_tools = None, tool_node = None\<rparr>,
              [FetchTools, InvokeModel BaseModel [HumanMessage ''b'']]),
             Inl (ModelInvocationError ''boom''))"
    by code_simp
  have "chat_history (new_chat (new_agent BaseModel) 50) = []"
    by (simp add: new_chat_def)
  with h send_message_error_in_band [of 5 flaky_env "new_chat (new_agent BaseModel) 50" "[]" "''b''"
       "\<lparr>model = BaseModel, agent_graph = True, bound_tools = None, tool_node = None\<rparr>"
       "[FetchTools, InvokeModel BaseModel [HumanMessage ''b'']]" "ModelInvocationError ''boom''"]
  show ?thesis by simp
qed

end
